theory Spec2Isabelle
  imports Complex_Main
begin

section \<open>The search store of the Vantage web client\<close>

text \<open>
  The store (stores/search-store.ts) keeps the client-side mirror of one lead search:
  it posts a run, polls its status on a 1.5 second interval, and cancels it. The model
  below follows the source function by function. The store's state is a record, the
  browser around it (active interval timers, the HTTP requests issued, the log) is a
  second record that every action takes and returns, and what the network answers is an
  argument of the part of an action that runs after its \<open>await\<close>.
\<close>

subsection \<open>Numbers\<close>

text \<open>
  A JavaScript \<open>number\<close> is a real value, one of the two infinities, or NaN.
  \<open>Math.min\<close> and \<open>Math.max\<close> return NaN as soon as one argument is NaN and
  compare exactly otherwise (no rounding takes place in a comparison).
\<close>

datatype number = NaN | NegInfinity | Fin real | Infinity

fun Math_min :: "number \<Rightarrow> number \<Rightarrow> number" where
  "Math_min NaN y = NaN"
| "Math_min x NaN = NaN"
| "Math_min NegInfinity y = NegInfinity"
| "Math_min x NegInfinity = NegInfinity"
| "Math_min Infinity y = y"
| "Math_min x Infinity = x"
| "Math_min (Fin a) (Fin b) = Fin (min a b)"

fun Math_max :: "number \<Rightarrow> number \<Rightarrow> number" where
  "Math_max NaN y = NaN"
| "Math_max x NaN = NaN"
| "Math_max Infinity y = Infinity"
| "Math_max x Infinity = Infinity"
| "Math_max NegInfinity y = y"
| "Math_max x NegInfinity = x"
| "Math_max (Fin a) (Fin b) = Fin (max a b)"

subsection \<open>Types of the store\<close>

datatype SearchStatus = Idle | Searching | Completed | Cancelled | Error

datatype CompanySize = Solo | Small | Medium | Enterprise

datatype OverrideMode = Supplement | Replace

record ManualOverride =
  mode :: OverrideMode
  override_keywords :: "string option"
  location :: "string option"
  companySize :: "CompanySize option"
  budgetMin :: "number option"
  budgetMax :: "number option"
  industry :: "string option"

datatype SourceState = Pending | Querying | Success | Failed

text \<open>
  Field names that Isabelle reserves or that two interfaces share are renamed:
  \<open>keywords\<close> is \<open>override_keywords\<close> and \<open>keywords_score\<close>, \<open>name\<close> and
  \<open>status\<close> of a source are \<open>src_name\<close> and \<open>src_status\<close>, \<open>id\<close> and \<open>name\<close> of a
  lead are \<open>lead_id\<close> and \<open>lead_name\<close>.
\<close>

record SourceStatus =
  src_name :: string
  src_status :: SourceState
  leadsFound :: number

record IntentScoreBreakdown =
  source_hierarchy :: number
  keywords_score :: number
  company_size :: number
  timing_recency :: number
  budget_signals :: number
  industry_multipliers :: number

record Lead =
  lead_id :: string
  lead_name :: string
  company :: string
  email :: "string option"
  phone :: "string option"
  intent_score :: number
  score_breakdown :: "IntentScoreBreakdown option"
  source :: string
  source_url :: "string option"
  created_at :: string

text \<open>
  A run as the server sends it. Its fields carry the prefix \<open>r_\<close>, since the store has
  fields of the same names. The interface declares \<open>sources\<close> and \<open>leads\<close> as arrays,
  but every reader in the store guards them (\<open>search.sources || []\<close>,
  \<open>search.leads?.length\<close>): a body may leave them out, which is \<open>None\<close> here.
\<close>

record SearchResult =
  r_id :: string
  r_client_profile_id :: string
  r_status :: SearchStatus
  r_progress :: number
  r_quality_level :: number
  r_sources :: "SourceStatus list option"
  r_leads :: "Lead list option"
  r_leads_found :: number
  r_error_message :: "string option"
  r_started_at :: string
  r_completed_at :: "string option"

text \<open>The handle \<open>setInterval\<close> returns: an object (or a positive integer), always truthy.\<close>

datatype Timeout = Timeout nat

record SearchState =
  currentSearch :: "SearchResult option"
  status :: SearchStatus
  progress :: number
  sources :: "SourceStatus list"
  leads :: "Lead list"
  error :: "string option"
  qualityLevel :: number
  manualOverride :: "ManualOverride option"
  pollingInterval :: "Timeout option"
  searchHistory :: "SearchResult list"

definition initialState :: SearchState where
  "initialState =
     \<lparr>currentSearch = None, status = Idle, progress = Fin 0, sources = [], leads = [],
      error = None, qualityLevel = Fin (7 / 10), manualOverride = None,
      pollingInterval = None, searchHistory = []\<rparr>"

subsection \<open>The environment of the store\<close>

text \<open>
  The requests the store sends (the bearer header that \<open>fetchWithAuth\<close> adds does not
  reach any state of the store and is left out), and the events it logs, each with the
  payload the source gives it.
\<close>

datatype request =
  Post_searches string number "ManualOverride option"
| Post_cancel string
| Get_search string
| Get_searches string

datatype log_level = Log_info | Log_warn | Log_error

datatype log_event =
  Search_start string number bool
| Search_started string
| Search_start_error string
| Cancel_search_no_active
| Search_cancel string
| Search_cancelled string nat
| Search_cancel_error string
| Search_complete string SearchStatus nat
| Search_poll_error string string
| Polling_started string
| Polling_stopped
| Fetch_search_history string
| Search_history_fetched nat
| Search_history_error string
| Search_store_reset

record world =
  store :: SearchState
  intervals :: "(Timeout \<times> string) list"
  next_handle :: nat
  fetched :: "request list"
  logged :: "(log_level \<times> log_event) list"

definition initial_world :: world where
  "initial_world =
     \<lparr>store = initialState, intervals = [], next_handle = 1, fetched = [], logged = []\<rparr>"

text \<open>Zustand's \<open>set\<close> with a partial state, the logger, and the three browser calls.\<close>

definition set_state :: "(SearchState \<Rightarrow> SearchState) \<Rightarrow> world \<Rightarrow> world" where
  "set_state f w = w\<lparr>store := f (store w)\<rparr>"

definition logger :: "log_level \<Rightarrow> log_event \<Rightarrow> world \<Rightarrow> world" where
  "logger lvl ev w = w\<lparr>logged := logged w @ [(lvl, ev)]\<rparr>"

definition fetchWithAuth :: "request \<Rightarrow> world \<Rightarrow> world" where
  "fetchWithAuth req w = w\<lparr>fetched := fetched w @ [req]\<rparr>"

definition setInterval :: "string \<Rightarrow> world \<Rightarrow> Timeout \<times> world" where
  "setInterval searchId w =
     (Timeout (next_handle w),
      w\<lparr>intervals := intervals w @ [(Timeout (next_handle w), searchId)],
        next_handle := Suc (next_handle w)\<rparr>)"

definition clearInterval :: "Timeout \<Rightarrow> world \<Rightarrow> world" where
  "clearInterval h w = w\<lparr>intervals := filter (\<lambda>p. fst p \<noteq> h) (intervals w)\<rparr>"

subsection \<open>Setters\<close>

definition setQualityLevel :: "number \<Rightarrow> world \<Rightarrow> world" where
  "setQualityLevel level w =
     (let clampedLevel = Math_max (Fin 0) (Math_min (Fin 1) level)
      in set_state (\<lambda>s. s\<lparr>qualityLevel := clampedLevel\<rparr>) w)"

definition setManualOverride :: "ManualOverride option \<Rightarrow> world \<Rightarrow> world" where
  "setManualOverride override w = set_state (\<lambda>s. s\<lparr>manualOverride := override\<rparr>) w"

definition setError :: "string option \<Rightarrow> world \<Rightarrow> world" where
  "setError err w = set_state (\<lambda>s. s\<lparr>error := err\<rparr>) w"

subsection \<open>What the network answers\<close>

text \<open>
  A \<open>catch\<close> clause receives whatever was thrown: an \<open>Error\<close> with its message (what a
  failed \<open>fetch\<close>, a failed \<open>response.json()\<close> and \<open>throw new Error(...)\<close> give), or a
  value that is no \<open>Error\<close>. An awaited request rejects, answers non-2xx, or answers
  2xx with a body whose \<open>json()\<close> yields the value or throws (\<open>Json_throws\<close> also stands
  for the body \<open>null\<close>, where reading the first field of \<open>search\<close> or \<open>data\<close> throws a
  \<open>TypeError\<close> before any state is set).
\<close>

datatype thrown = JsError string | NotAnError

text \<open>
  The body of a non-2xx response is untyped JSON, and the store does three things with
  it: it reads \<open>errorData.detail\<close>, tests the result with \<open>||\<close>, and hands it to
  \<open>new Error\<close>, which converts it to a string. A value read from the body is a string,
  or any other JSON value (null, a boolean, a number, an array, an object), which is
  given here by what the two operations see of it: whether it is truthy, and what
  converting it to a string yields: a text (\<open>[object Object]\<close> for an object, the
  joined elements for an array), or a \<open>TypeError\<close> where the conversion throws (an
  object with a property \<open>toString\<close> of its own).
\<close>

datatype js_value = String_value string | Other_value bool "thrown + string"

fun truthy :: "js_value \<Rightarrow> bool" where
  "truthy (String_value s) = (s \<noteq> [])"
| "truthy (Other_value t r) = t"

fun ToString :: "js_value \<Rightarrow> thrown + string" where
  "ToString (String_value s) = Inr s"
| "ToString (Other_value t r) = r"

text \<open>
  \<open>errorData\<close> after \<open>await response.json().catch(() => ({}))\<close>: \<open>{}\<close> when the body is
  unreadable; \<open>null\<close> when the body is the JSON \<open>null\<close>, with the message of the
  \<open>TypeError\<close> that the engine throws on reading a property of it; or any other value,
  with its property \<open>detail\<close> (\<open>None\<close> when it has none, as for an object without it and
  for a boolean, a number, a string or an array).
\<close>

datatype error_body = Unreadable | Null_body string | ErrorData "js_value option"

datatype 'a json = Json_throws thrown | Json 'a

datatype 'a response = Rejects thrown | Not_ok error_body | Ok "'a json"

text \<open>\<open>errorData.detail\<close>: undefined (\<open>None\<close>), a value, or a throw.\<close>

fun detail :: "error_body \<Rightarrow> thrown + js_value option" where
  "detail Unreadable = Inr None"
| "detail (Null_body m) = Inl (JsError m)"
| "detail (ErrorData d) = Inr d"

text \<open>\<open>x || fallback\<close> with a string literal as fallback: undefined is falsy.\<close>

fun or_else :: "js_value option \<Rightarrow> string \<Rightarrow> js_value" where
  "or_else None fallback = String_value fallback"
| "or_else (Some v) fallback = (if truthy v then v else String_value fallback)"

text \<open>
  What the two lines
  \<open>const errorData = await response.json().catch(() => ({}));\<close>
  \<open>throw new Error(errorData.detail || fallback);\<close>
  throw: the error of reading \<open>detail\<close>, the error of converting the message, or the
  new \<open>Error\<close> with the converted message.
\<close>

definition throw_detail_or :: "error_body \<Rightarrow> string \<Rightarrow> thrown" where
  "throw_detail_or b fallback =
     (case detail b of
        Inl e \<Rightarrow> e
      | Inr d \<Rightarrow>
          (case ToString (or_else d fallback) of
             Inl e \<Rightarrow> e
           | Inr message \<Rightarrow> JsError message))"

text \<open>\<open>xs || []\<close> on an optional array: an array, also an empty one, is truthy.\<close>

fun or_empty :: "'a list option \<Rightarrow> 'a list" where
  "or_empty None = []"
| "or_empty (Some xs) = xs"

text \<open>\<open>error instanceof Error ? error.message : fallback\<close>.\<close>

fun message_of :: "thrown \<Rightarrow> string \<Rightarrow> string" where
  "message_of (JsError m) fallback = m"
| "message_of NotAnError fallback = fallback"

subsection \<open>Polling control\<close>

definition stopPolling :: "world \<Rightarrow> world" where
  "stopPolling w =
     (case pollingInterval (store w) of
        None \<Rightarrow> w
      | Some h \<Rightarrow>
          logger Log_info Polling_stopped
            (set_state (\<lambda>s. s\<lparr>pollingInterval := None\<rparr>) (clearInterval h w)))"

definition startPolling :: "string \<Rightarrow> world \<Rightarrow> world" where
  "startPolling searchId w =
     (let w1 = stopPolling w;
          (interval, w2) = setInterval searchId w1;
          w3 = set_state (\<lambda>s. s\<lparr>pollingInterval := Some interval\<rparr>) w2
      in logger Log_info (Polling_started searchId) w3)"

subsection \<open>pollSearchStatus\<close>

text \<open>
  An async action is two functions: the part that runs until the request is sent
  (\<open>_call\<close>), and the part that runs when the awaited request settles (\<open>_settled\<close>),
  which takes the answer. The body of a \<open>try\<close> returns \<open>Inl\<close> of what it throws; no
  body of this store throws after it has changed the state. The action's name itself
  is the run of both parts with nothing in between.
\<close>

definition pollSearchStatus_call :: "string \<Rightarrow> world \<Rightarrow> world" where
  "pollSearchStatus_call searchId w = fetchWithAuth (Get_search searchId) w"

definition pollSearchStatus_try :: "SearchResult response \<Rightarrow> world \<Rightarrow> thrown + world" where
  "pollSearchStatus_try resp w =
     (case resp of
        Rejects e \<Rightarrow> Inl e
      | Not_ok b \<Rightarrow> Inl (JsError ''Failed to fetch search status'')
      | Ok (Json_throws e) \<Rightarrow> Inl e
      | Ok (Json search) \<Rightarrow>
          (let w1 = set_state (\<lambda>s. s\<lparr>currentSearch := Some search,
                                     status := r_status search,
                                     progress := r_progress search,
                                     sources := or_empty (r_sources search),
                                     leads := or_empty (r_leads search),
                                     error := r_error_message search\<rparr>) w
           in if r_status search \<noteq> Searching
              then Inr (logger Log_info
                     (Search_complete (r_id search) (r_status search)
                        (length (or_empty (r_leads search))))
                     (stopPolling w1))
              else Inr w1))"

definition pollSearchStatus_settled ::
  "string \<Rightarrow> SearchResult response \<Rightarrow> world \<Rightarrow> world" where
  "pollSearchStatus_settled searchId resp w =
     (case pollSearchStatus_try resp w of
        Inr w' \<Rightarrow> w'
      | Inl e \<Rightarrow>
          (let message = message_of e ''Failed to poll search status''
           in logger Log_error (Search_poll_error searchId message) w))"

definition pollSearchStatus :: "string \<Rightarrow> SearchResult response \<Rightarrow> world \<Rightarrow> world" where
  "pollSearchStatus searchId resp w =
     pollSearchStatus_settled searchId resp (pollSearchStatus_call searchId w)"

text \<open>A tick of an active interval runs its callback; a cleared interval never fires.\<close>

definition interval_fires :: "Timeout \<Rightarrow> world \<Rightarrow> world" where
  "interval_fires h w =
     (case map_of (intervals w) h of
        None \<Rightarrow> w
      | Some searchId \<Rightarrow> pollSearchStatus_call searchId w)"

subsection \<open>startSearch\<close>

text \<open>
  \<open>startSearch_prologue\<close> is the action up to the call of \<open>fetchWithAuth\<close>;
  \<open>startSearch_call\<close> adds the request, built from the \<open>qualityLevel\<close> and
  \<open>manualOverride\<close> read at the start.
\<close>

definition startSearch_prologue :: "string \<Rightarrow> world \<Rightarrow> world" where
  "startSearch_prologue clientProfileId w =
     (let w1 = stopPolling w;
          w2 = set_state (\<lambda>s. s\<lparr>status := Searching, progress := Fin 0, sources := [],
                                    leads := [], error := None, currentSearch := None\<rparr>) w1
      in logger Log_info
           (Search_start clientProfileId (qualityLevel (store w))
              (manualOverride (store w) \<noteq> None)) w2)"

definition startSearch_call :: "string \<Rightarrow> world \<Rightarrow> world" where
  "startSearch_call clientProfileId w =
     fetchWithAuth
       (Post_searches clientProfileId (qualityLevel (store w)) (manualOverride (store w)))
       (startSearch_prologue clientProfileId w)"

definition startSearch_try :: "SearchResult response \<Rightarrow> world \<Rightarrow> thrown + world" where
  "startSearch_try resp w =
     (case resp of
        Rejects e \<Rightarrow> Inl e
      | Not_ok b \<Rightarrow> Inl (throw_detail_or b ''Failed to start search'')
      | Ok (Json_throws e) \<Rightarrow> Inl e
      | Ok (Json search) \<Rightarrow>
          (let w1 = set_state (\<lambda>s. s\<lparr>currentSearch := Some search,
                                     status := r_status search,
                                     progress := r_progress search,
                                     sources := or_empty (r_sources search),
                                     leads := or_empty (r_leads search)\<rparr>) w;
               w2 = logger Log_info (Search_started (r_id search)) w1
           in if r_status search = Searching
              then Inr (startPolling (r_id search) w2)
              else Inr w2))"

definition startSearch_settled :: "SearchResult response \<Rightarrow> world \<Rightarrow> world" where
  "startSearch_settled resp w =
     (case startSearch_try resp w of
        Inr w' \<Rightarrow> w'
      | Inl e \<Rightarrow>
          (let message = message_of e ''Failed to start search''
           in set_state (\<lambda>s. s\<lparr>status := Error, error := Some message\<rparr>)
                (logger Log_error (Search_start_error message) w)))"

definition startSearch :: "string \<Rightarrow> SearchResult response \<Rightarrow> world \<Rightarrow> world" where
  "startSearch clientProfileId resp w =
     startSearch_settled resp (startSearch_call clientProfileId w)"

subsection \<open>cancelSearch\<close>

definition cancelSearch_call :: "world \<Rightarrow> world" where
  "cancelSearch_call w =
     (case currentSearch (store w) of
        None \<Rightarrow> logger Log_warn Cancel_search_no_active w
      | Some current \<Rightarrow>
          (let w1 = stopPolling w;
               w2 = logger Log_info (Search_cancel (r_id current)) w1
           in fetchWithAuth (Post_cancel (r_id current)) w2))"

definition cancelSearch_try :: "SearchResult response \<Rightarrow> world \<Rightarrow> thrown + world" where
  "cancelSearch_try resp w =
     (case resp of
        Rejects e \<Rightarrow> Inl e
      | Not_ok b \<Rightarrow> Inl (throw_detail_or b ''Failed to cancel search'')
      | Ok (Json_throws e) \<Rightarrow> Inl e
      | Ok (Json search) \<Rightarrow>
          (let w1 = set_state (\<lambda>s. s\<lparr>currentSearch := Some search,
                                     status := Cancelled,
                                     progress := r_progress search,
                                     sources := or_empty (r_sources search),
                                     leads := or_empty (r_leads search)\<rparr>) w
           in Inr (logger Log_info
                     (Search_cancelled (r_id search) (length (or_empty (r_leads search))))
                     w1)))"

definition cancelSearch_settled :: "SearchResult response \<Rightarrow> world \<Rightarrow> world" where
  "cancelSearch_settled resp w =
     (case cancelSearch_try resp w of
        Inr w' \<Rightarrow> w'
      | Inl e \<Rightarrow>
          (let message = message_of e ''Failed to cancel search''
           in set_state (\<lambda>s. s\<lparr>error := Some message\<rparr>)
                (logger Log_error (Search_cancel_error message) w)))"

text \<open>Without a current run the action returns before the \<open>try\<close>: nothing is awaited.\<close>

definition cancelSearch :: "SearchResult response \<Rightarrow> world \<Rightarrow> world" where
  "cancelSearch resp w =
     (case currentSearch (store w) of
        None \<Rightarrow> cancelSearch_call w
      | Some current \<Rightarrow> cancelSearch_settled resp (cancelSearch_call w))"

subsection \<open>fetchSearchHistory and reset\<close>

definition fetchSearchHistory_call :: "string \<Rightarrow> world \<Rightarrow> world" where
  "fetchSearchHistory_call clientProfileId w =
     fetchWithAuth (Get_searches clientProfileId)
       (logger Log_info (Fetch_search_history clientProfileId) w)"

definition fetchSearchHistory_try ::
  "SearchResult list option response \<Rightarrow> world \<Rightarrow> thrown + world" where
  "fetchSearchHistory_try resp w =
     (case resp of
        Rejects e \<Rightarrow> Inl e
      | Not_ok b \<Rightarrow> Inl (JsError ''Failed to fetch search history'')
      | Ok (Json_throws e) \<Rightarrow> Inl e
      | Ok (Json searches) \<Rightarrow>
          Inr (logger Log_info (Search_history_fetched (length (or_empty searches)))
                 (set_state (\<lambda>s. s\<lparr>searchHistory := or_empty searches\<rparr>) w)))"

definition fetchSearchHistory_settled ::
  "SearchResult list option response \<Rightarrow> world \<Rightarrow> world" where
  "fetchSearchHistory_settled resp w =
     (case fetchSearchHistory_try resp w of
        Inr w' \<Rightarrow> w'
      | Inl e \<Rightarrow>
          (let message = message_of e ''Failed to fetch search history''
           in logger Log_error (Search_history_error message) w))"

definition reset :: "world \<Rightarrow> world" where
  "reset w =
     logger Log_info Search_store_reset (set_state (\<lambda>s. initialState) (stopPolling w))"

subsection \<open>Runs of the store\<close>

text \<open>
  JavaScript runs each of these to completion before the next starts; between the two
  parts of an async action anything else may run. An event is one such uninterrupted
  piece, and a run of the store is a list of events from the initial state. Any answer
  may settle at any time, which covers late and overlapping answers.
\<close>

datatype event =
  StartSearch string
| StartSearch_settled "SearchResult response"
| CancelSearch
| CancelSearch_settled "SearchResult response"
| PollSearchStatus string
| PollSearchStatus_settled string "SearchResult response"
| SetQualityLevel number
| SetManualOverride "ManualOverride option"
| SetError "string option"
| StartPolling string
| StopPolling
| FetchSearchHistory string
| FetchSearchHistory_settled "SearchResult list option response"
| Reset
| Interval_fires Timeout

fun step :: "event \<Rightarrow> world \<Rightarrow> world" where
  "step (StartSearch clientProfileId) w = startSearch_call clientProfileId w"
| "step (StartSearch_settled resp) w = startSearch_settled resp w"
| "step CancelSearch w = cancelSearch_call w"
| "step (CancelSearch_settled resp) w = cancelSearch_settled resp w"
| "step (PollSearchStatus searchId) w = pollSearchStatus_call searchId w"
| "step (PollSearchStatus_settled searchId resp) w = pollSearchStatus_settled searchId resp w"
| "step (SetQualityLevel level) w = setQualityLevel level w"
| "step (SetManualOverride override) w = setManualOverride override w"
| "step (SetError err) w = setError err w"
| "step (StartPolling searchId) w = startPolling searchId w"
| "step StopPolling w = stopPolling w"
| "step (FetchSearchHistory clientProfileId) w = fetchSearchHistory_call clientProfileId w"
| "step (FetchSearchHistory_settled resp) w = fetchSearchHistory_settled resp w"
| "step Reset w = reset w"
| "step (Interval_fires h) w = interval_fires h w"

definition run :: "event list \<Rightarrow> world" where
  "run evs = foldl (\<lambda>w ev. step ev w) initial_world evs"

text \<open>The timers that are active are exactly the one the store holds, if it holds one.\<close>

definition single_timer :: "world \<Rightarrow> bool" where
  "single_timer w = (map fst (intervals w) = (case pollingInterval (store w) of None \<Rightarrow> [] | Some h \<Rightarrow> [h]))"

subsection \<open>An example run\<close>

text \<open>
  A run of the store to evaluate the actions on: a search is started for profile
  \<open>p1\<close>, the server answers with run \<open>s1\<close> in status \<open>searching\<close>, the timer ticks
  once and the poll brings three leads at progress 0.5.
\<close>

definition example_lead :: "string \<Rightarrow> Lead" where
  "example_lead i =
     \<lparr>lead_id = i, lead_name = ''Ada'', company = ''Acme'', email = None, phone = None,
      intent_score = Fin 80, score_breakdown = None, source = ''upwork'',
      source_url = None, created_at = ''2025-01-01T00:00:00Z''\<rparr>"

definition example_run :: "SearchStatus \<Rightarrow> number \<Rightarrow> Lead list \<Rightarrow> SearchResult" where
  "example_run st p ls =
     \<lparr>r_id = ''s1'', r_client_profile_id = ''p1'', r_status = st, r_progress = p,
      r_quality_level = Fin (7 / 10), r_sources = Some [], r_leads = Some ls,
      r_leads_found = Fin (real (length ls)), r_error_message = None,
      r_started_at = ''2025-01-01T00:00:00Z'', r_completed_at = None\<rparr>"

definition three_leads :: "Lead list" where
  "three_leads = [example_lead ''l1'', example_lead ''l2'', example_lead ''l3'']"

definition searching_world :: world where
  "searching_world =
     run [StartSearch ''p1'',
          StartSearch_settled (Ok (Json (example_run Searching (Fin 0) []))),
          Interval_fires (Timeout 1),
          PollSearchStatus_settled ''s1''
            (Ok (Json (example_run Searching (Fin (1 / 2)) three_leads)))]"

text \<open>
  The same run continued: the timer ticks again and sends a poll, the user cancels and
  starts a new search, the answer to that last poll arrives only now, and then the
  creation request fails.
\<close>

definition stale_poll_events :: "event list" where
  "stale_poll_events =
     [StartSearch ''p1'',
      StartSearch_settled (Ok (Json (example_run Searching (Fin 0) []))),
      Interval_fires (Timeout 1),
      PollSearchStatus_settled ''s1''
        (Ok (Json (example_run Searching (Fin (1 / 2)) three_leads))),
      Interval_fires (Timeout 1),
      CancelSearch,
      CancelSearch_settled (Ok (Json (example_run Cancelled (Fin (1 / 2)) three_leads))),
      StartSearch ''p1'',
      PollSearchStatus_settled ''s1''
        (Ok (Json (example_run Searching (Fin (1 / 2)) three_leads))),
      StartSearch_settled (Not_ok (ErrorData (Some (String_value ''quota exceeded''))))]"

section \<open>Properties\<close>

subsection \<open>How each call acts on the parts of the environment\<close>

lemma store_logger [simp]: "store (logger lvl ev w) = store w"
  and intervals_logger [simp]: "intervals (logger lvl ev w) = intervals w"
  and next_handle_logger [simp]: "next_handle (logger lvl ev w) = next_handle w"
  and fetched_logger [simp]: "fetched (logger lvl ev w) = fetched w"
  and logged_logger [simp]: "logged (logger lvl ev w) = logged w @ [(lvl, ev)]"
  by (simp_all add: logger_def)

lemma store_fetchWithAuth [simp]: "store (fetchWithAuth req w) = store w"
  and intervals_fetchWithAuth [simp]: "intervals (fetchWithAuth req w) = intervals w"
  and next_handle_fetchWithAuth [simp]: "next_handle (fetchWithAuth req w) = next_handle w"
  and fetched_fetchWithAuth [simp]: "fetched (fetchWithAuth req w) = fetched w @ [req]"
  and logged_fetchWithAuth [simp]: "logged (fetchWithAuth req w) = logged w"
  by (simp_all add: fetchWithAuth_def)

lemma store_set_state [simp]: "store (set_state f w) = f (store w)"
  and intervals_set_state [simp]: "intervals (set_state f w) = intervals w"
  and next_handle_set_state [simp]: "next_handle (set_state f w) = next_handle w"
  and fetched_set_state [simp]: "fetched (set_state f w) = fetched w"
  and logged_set_state [simp]: "logged (set_state f w) = logged w"
  by (simp_all add: set_state_def)

lemma store_clearInterval [simp]: "store (clearInterval h w) = store w"
  and intervals_clearInterval [simp]:
    "intervals (clearInterval h w) = filter (\<lambda>p. fst p \<noteq> h) (intervals w)"
  and next_handle_clearInterval [simp]: "next_handle (clearInterval h w) = next_handle w"
  and fetched_clearInterval [simp]: "fetched (clearInterval h w) = fetched w"
  and logged_clearInterval [simp]: "logged (clearInterval h w) = logged w"
  by (simp_all add: clearInterval_def)

lemma store_stopPolling: "store (stopPolling w) = (store w)\<lparr>pollingInterval := None\<rparr>"
  by (cases "pollingInterval (store w)") (simp_all add: stopPolling_def)

lemma fetched_stopPolling [simp]: "fetched (stopPolling w) = fetched w"
  and next_handle_stopPolling [simp]: "next_handle (stopPolling w) = next_handle w"
  by (simp_all add: stopPolling_def split: option.splits)

lemma intervals_stopPolling:
  "intervals (stopPolling w) =
     filter (\<lambda>p. Some (fst p) \<noteq> pollingInterval (store w)) (intervals w)"
  by (cases "pollingInterval (store w)") (simp_all add: stopPolling_def)

lemma stopPolling_no_intervals:
  "single_timer w \<Longrightarrow> intervals (stopPolling w) = []"
  by (cases "pollingInterval (store w)")
     (auto simp: single_timer_def stopPolling_def filter_empty_conv)

lemma startPolling_store:
  "store (startPolling sid w) = (store w)\<lparr>pollingInterval := Some (Timeout (next_handle w))\<rparr>"
  by (simp add: startPolling_def setInterval_def store_stopPolling Let_def)

lemma startPolling_intervals:
  "intervals (startPolling sid w) = intervals (stopPolling w) @ [(Timeout (next_handle w), sid)]"
  by (simp add: startPolling_def setInterval_def Let_def)

lemma single_timer_startPolling:
  "single_timer w \<Longrightarrow> single_timer (startPolling sid w)"
  by (simp add: single_timer_def[of "startPolling sid w"] startPolling_store
      startPolling_intervals stopPolling_no_intervals)

lemma single_timerI:
  "intervals w' = intervals w \<Longrightarrow> pollingInterval (store w') = pollingInterval (store w)
   \<Longrightarrow> single_timer w \<Longrightarrow> single_timer w'"
  by (simp add: single_timer_def)

lemma single_timer_stopped:
  "single_timer w \<Longrightarrow> intervals w' = intervals (stopPolling w) \<Longrightarrow>
   pollingInterval (store w') = None \<Longrightarrow> single_timer w'"
  by (simp add: single_timer_def[of w'] stopPolling_no_intervals)

lemma next_handle_startPolling: "next_handle (startPolling sid w) = Suc (next_handle w)"
  and fetched_startPolling: "fetched (startPolling sid w) = fetched w"
  by (simp_all add: startPolling_def setInterval_def Let_def)

lemma single_timer_logger [simp]: "single_timer (logger lvl ev w) = single_timer w"
  and single_timer_fetchWithAuth [simp]: "single_timer (fetchWithAuth req w) = single_timer w"
  by (simp_all add: single_timer_def)

lemma single_timer_set_state:
  "pollingInterval (f (store w)) = pollingInterval (store w) \<Longrightarrow>
   single_timer (set_state f w) = single_timer w"
  by (simp add: single_timer_def)

lemma single_timer_stopPolling: "single_timer w \<Longrightarrow> single_timer (stopPolling w)"
  by (rule single_timer_stopped[of w]) (simp_all add: store_stopPolling)

lemma single_timer_startSearch_call:
  "single_timer w \<Longrightarrow> single_timer (startSearch_call cid w)"
  by (simp add: startSearch_call_def startSearch_prologue_def Let_def
      single_timer_set_state single_timer_stopPolling)

lemma single_timer_startSearch_settled:
  "single_timer w \<Longrightarrow> single_timer (startSearch_settled resp w)"
  by (auto simp: startSearch_settled_def startSearch_try_def Let_def single_timer_set_state
      intro!: single_timer_startPolling split: response.splits json.splits)

lemma single_timer_cancelSearch_call:
  "single_timer w \<Longrightarrow> single_timer (cancelSearch_call w)"
  by (auto simp: cancelSearch_call_def Let_def single_timer_stopPolling split: option.splits)

lemma single_timer_cancelSearch_settled:
  "single_timer w \<Longrightarrow> single_timer (cancelSearch_settled resp w)"
  by (auto simp: cancelSearch_settled_def cancelSearch_try_def Let_def single_timer_set_state
      split: response.splits json.splits)

lemma single_timer_pollSearchStatus_settled:
  "single_timer w \<Longrightarrow> single_timer (pollSearchStatus_settled sid resp w)"
  by (auto simp: pollSearchStatus_settled_def pollSearchStatus_try_def Let_def
      single_timer_set_state intro!: single_timer_stopPolling
      split: response.splits json.splits)

lemma single_timer_step: "single_timer w \<Longrightarrow> single_timer (step ev w)"
proof (cases ev)
  case (StartSearch cid)
  assume "single_timer w"
  then show ?thesis unfolding StartSearch step.simps by (rule single_timer_startSearch_call)
next
  case (StartSearch_settled resp)
  assume "single_timer w"
  then show ?thesis unfolding StartSearch_settled step.simps
    by (rule single_timer_startSearch_settled)
next
  case CancelSearch
  assume "single_timer w"
  then show ?thesis unfolding CancelSearch step.simps by (rule single_timer_cancelSearch_call)
next
  case (CancelSearch_settled resp)
  assume "single_timer w"
  then show ?thesis unfolding CancelSearch_settled step.simps
    by (rule single_timer_cancelSearch_settled)
next
  case (PollSearchStatus sid)
  assume "single_timer w"
  then show ?thesis unfolding PollSearchStatus step.simps
    by (auto intro: single_timerI[of _ w] simp: pollSearchStatus_call_def)
next
  case (PollSearchStatus_settled sid resp)
  assume "single_timer w"
  then show ?thesis unfolding PollSearchStatus_settled step.simps
    by (rule single_timer_pollSearchStatus_settled)
next
  case (SetQualityLevel level)
  assume "single_timer w"
  then show ?thesis unfolding SetQualityLevel step.simps
    by (auto intro: single_timerI[of _ w] simp: setQualityLevel_def Let_def)
next
  case (SetManualOverride override)
  assume "single_timer w"
  then show ?thesis unfolding SetManualOverride step.simps
    by (auto intro: single_timerI[of _ w] simp: setManualOverride_def)
next
  case (SetError err)
  assume "single_timer w"
  then show ?thesis unfolding SetError step.simps
    by (auto intro: single_timerI[of _ w] simp: setError_def)
next
  case (StartPolling sid)
  assume "single_timer w"
  then show ?thesis unfolding StartPolling step.simps by (rule single_timer_startPolling)
next
  case StopPolling
  assume "single_timer w"
  then show ?thesis unfolding StopPolling step.simps
    by (auto intro!: single_timer_stopped[of w] simp: store_stopPolling)
next
  case (FetchSearchHistory cid)
  assume "single_timer w"
  then show ?thesis unfolding FetchSearchHistory step.simps
    by (auto intro: single_timerI[of _ w] simp: fetchSearchHistory_call_def)
next
  case (FetchSearchHistory_settled resp)
  assume "single_timer w"
  then show ?thesis unfolding FetchSearchHistory_settled step.simps
    by (auto intro!: single_timerI[of _ w]
        simp: fetchSearchHistory_settled_def fetchSearchHistory_try_def Let_def
        split: response.splits json.splits sum.splits)
next
  case Reset
  assume "single_timer w"
  then show ?thesis unfolding Reset step.simps
    by (auto intro!: single_timer_stopped[of w] simp: reset_def initialState_def)
next
  case (Interval_fires h)
  assume "single_timer w"
  then show ?thesis unfolding Interval_fires step.simps
    by (auto intro: single_timerI[of _ w] simp: interval_fires_def pollSearchStatus_call_def
        split: option.splits)
qed

lemma single_timer_foldl:
  "single_timer w \<Longrightarrow> single_timer (foldl (\<lambda>w ev. step ev w) w evs)"
  by (induction evs arbitrary: w) (simp_all add: single_timer_step)

lemma single_timer_run: "single_timer (run evs)"
  unfolding run_def
  by (rule single_timer_foldl) (simp add: single_timer_def initial_world_def initialState_def)

subsection \<open>Clamping of the quality level\<close>

text \<open>
  C6: for every real number \<open>x\<close>, \<open>setQualityLevel(x)\<close> stores exactly
  \<open>max(0, min(1, x))\<close> in \<open>qualityLevel\<close> and changes no other field of the store (nor
  any timer, request or log entry); \<open>setQualityLevel(1.4)\<close> stores 1 and
  \<open>setQualityLevel(-0.2)\<close> stores 0.
\<close>

theorem setQualityLevel_clamps:
  "setQualityLevel (Fin x) w = w\<lparr>store := (store w)\<lparr>qualityLevel := Fin (max 0 (min 1 x))\<rparr>\<rparr>
   \<and> qualityLevel (store (setQualityLevel (Fin (14 / 10)) w)) = Fin 1
   \<and> qualityLevel (store (setQualityLevel (Fin (- 2 / 10)) w)) = Fin 0"
  by (simp add: setQualityLevel_def set_state_def)

subsection \<open>One polling timer\<close>

text \<open>
  C3: after any sequence of events of the store (calls of \<open>startSearch\<close>,
  \<open>cancelSearch\<close>, \<open>startPolling\<close>, \<open>stopPolling\<close>, \<open>reset\<close> and of every other action,
  answers settling in any order, timer ticks) at most one polling timer is active,
  \<open>pollingInterval\<close> is null exactly when no timer is active and otherwise holds the one
  active timer, and \<open>startPolling\<close>, the only action that creates a timer, leaves the
  timer it creates as the only active one.
\<close>

theorem single_polling_timer:
  "length (intervals (run evs)) \<le> 1
   \<and> (pollingInterval (store (run evs)) = None) = (intervals (run evs) = [])
   \<and> map fst (intervals (run evs)) =
       (case pollingInterval (store (run evs)) of None \<Rightarrow> [] | Some h \<Rightarrow> [h])
   \<and> intervals (startPolling searchId (run evs)) = [(Timeout (next_handle (run evs)), searchId)]
   \<and> pollingInterval (store (startPolling searchId (run evs))) =
       Some (Timeout (next_handle (run evs)))"
proof -
  have inv: "single_timer (run evs)" by (rule single_timer_run)
  then have m: "map fst (intervals (run evs)) =
       (case pollingInterval (store (run evs)) of None \<Rightarrow> [] | Some h \<Rightarrow> [h])"
    by (simp add: single_timer_def)
  have l: "length (intervals (run evs)) = length (map fst (intervals (run evs)))" by simp
  have "length (intervals (run evs)) \<le> 1"
    unfolding l m by (simp split: option.splits)
  moreover have "(pollingInterval (store (run evs)) = None) = (intervals (run evs) = [])"
    using m by (cases "pollingInterval (store (run evs))") auto
  moreover have "intervals (startPolling searchId (run evs)) =
      [(Timeout (next_handle (run evs)), searchId)]"
    by (simp add: startPolling_intervals stopPolling_no_intervals[OF inv])
  ultimately show ?thesis using m by (simp add: startPolling_store)
qed

subsection \<open>reset\<close>

text \<open>
  C10: \<open>reset()\<close> puts the whole store back to \<open>initialState\<close>: the current run, status,
  progress, sources, leads and error are cleared, and so are the search parameters
  (\<open>qualityLevel\<close> back to 0.7, \<open>manualOverride\<close> to null) and \<open>searchHistory\<close>; polling
  is stopped, so that no timer stays active.
\<close>

theorem reset_restores_initialState:
  "store (reset w) = initialState
   \<and> currentSearch (store (reset w)) = None
   \<and> status (store (reset w)) = Idle
   \<and> progress (store (reset w)) = Fin 0
   \<and> sources (store (reset w)) = []
   \<and> leads (store (reset w)) = []
   \<and> error (store (reset w)) = None
   \<and> qualityLevel (store (reset w)) = Fin (7 / 10)
   \<and> manualOverride (store (reset w)) = None
   \<and> searchHistory (store (reset w)) = []
   \<and> pollingInterval (store (reset w)) = None
   \<and> intervals (reset (run evs)) = []"
  by (simp add: reset_def initialState_def stopPolling_no_intervals[OF single_timer_run])

subsection \<open>The actions on the example run and on failing requests\<close>

lemma searching_world_eq:
  "searching_world =
     \<lparr>store = \<lparr>currentSearch = Some (example_run Searching (Fin (1 / 2)) three_leads),
                status = Searching, progress = Fin (1 / 2), sources = [],
                leads = three_leads, error = None, qualityLevel = Fin (7 / 10),
                manualOverride = None, pollingInterval = Some (Timeout 1),
                searchHistory = []\<rparr>,
      intervals = [(Timeout 1, ''s1'')], next_handle = 2,
      fetched = [Post_searches ''p1'' (Fin (7 / 10)) None, Get_search ''s1''],
      logged = [(Log_info, Search_start ''p1'' (Fin (7 / 10)) False),
                (Log_info, Search_started ''s1''),
                (Log_info, Polling_started ''s1'')]\<rparr>"
  by (simp add: searching_world_def run_def initial_world_def initialState_def
      startSearch_call_def startSearch_prologue_def stopPolling_def startSearch_settled_def
      startSearch_try_def startPolling_def setInterval_def interval_fires_def
      pollSearchStatus_call_def pollSearchStatus_settled_def pollSearchStatus_try_def
      set_state_def logger_def fetchWithAuth_def example_run_def Let_def)

lemma store_pollSearchStatus_call [simp]:
  "store (pollSearchStatus_call sid w) = store w"
  and intervals_pollSearchStatus_call [simp]:
  "intervals (pollSearchStatus_call sid w) = intervals w"
  and fetched_pollSearchStatus_call [simp]:
  "fetched (pollSearchStatus_call sid w) = fetched w @ [Get_search sid]"
  and next_handle_pollSearchStatus_call [simp]:
  "next_handle (pollSearchStatus_call sid w) = next_handle w"
  by (simp_all add: pollSearchStatus_call_def)

lemma single_timer_pollSearchStatus_call [simp]:
  "single_timer (pollSearchStatus_call sid w) = single_timer w"
  by (simp add: single_timer_def)

lemma pollSearchStatus_settled_failure:
  "resp = Rejects e \<or> resp = Not_ok b \<Longrightarrow>
   \<exists>m. pollSearchStatus_settled sid resp w = logger Log_error (Search_poll_error sid m) w"
  by (auto simp: pollSearchStatus_settled_def pollSearchStatus_try_def Let_def)

lemma cancelSearch_call_current:
  "currentSearch (store w) = Some current \<Longrightarrow>
   cancelSearch_call w =
     fetchWithAuth (Post_cancel (r_id current))
       (logger Log_info (Search_cancel (r_id current)) (stopPolling w))"
  by (simp add: cancelSearch_call_def Let_def)

lemma cancelSearch_settled_failure:
  "cancelSearch_try resp w = Inl e \<Longrightarrow>
   cancelSearch_settled resp w =
     set_state (\<lambda>s. s\<lparr>error := Some (message_of e ''Failed to cancel search'')\<rparr>)
       (logger Log_error (Search_cancel_error (message_of e ''Failed to cancel search'')) w)"
  by (simp add: cancelSearch_settled_def Let_def)

lemma startSearch_settled_failure:
  "startSearch_try resp w = Inl e \<Longrightarrow>
   startSearch_settled resp w =
     set_state (\<lambda>s. s\<lparr>status := Error, error := Some (message_of e ''Failed to start search'')\<rparr>)
       (logger Log_error (Search_start_error (message_of e ''Failed to start search'')) w)"
  by (simp add: startSearch_settled_def Let_def)

lemma store_startSearch_prologue:
  "store (startSearch_prologue cid w) =
     (store w)\<lparr>pollingInterval := None, status := Searching, progress := Fin 0,
       sources := [], leads := [], error := None, currentSearch := None\<rparr>"
  by (simp add: startSearch_prologue_def Let_def store_stopPolling)

lemma env_startSearch_prologue:
  "intervals (startSearch_prologue cid w) = intervals (stopPolling w)"
  "fetched (startSearch_prologue cid w) = fetched w"
  "next_handle (startSearch_prologue cid w) = next_handle w"
  by (simp_all add: startSearch_prologue_def Let_def)

lemma store_startSearch_call:
  "store (startSearch_call cid w) = store (startSearch_prologue cid w)"
  and intervals_startSearch_call:
  "intervals (startSearch_call cid w) = intervals (stopPolling w)"
  and next_handle_startSearch_call:
  "next_handle (startSearch_call cid w) = next_handle w"
  by (simp_all add: startSearch_call_def env_startSearch_prologue)

lemma startSearch_failure:
  "startSearch_try resp (startSearch_call cid w) = Inl e \<Longrightarrow>
   store (startSearch cid resp w) =
     (store w)\<lparr>pollingInterval := None, status := Error, progress := Fin 0, sources := [],
       leads := [], error := Some (message_of e ''Failed to start search''),
       currentSearch := None\<rparr>
   \<and> intervals (startSearch cid resp w) = intervals (stopPolling w)
   \<and> next_handle (startSearch cid resp w) = next_handle w"
  by (simp add: startSearch_def startSearch_settled_failure store_startSearch_call
      store_startSearch_prologue intervals_startSearch_call next_handle_startSearch_call)

lemma startSearch_try_Rejects: "startSearch_try (Rejects e) w = Inl e"
  and startSearch_try_Not_ok:
  "startSearch_try (Not_ok b) w = Inl (throw_detail_or b ''Failed to start search'')"
  by (simp_all add: startSearch_try_def)

lemma cancelSearch_failure:
  "currentSearch (store w) = Some current \<Longrightarrow>
   cancelSearch_try resp (cancelSearch_call w) = Inl e \<Longrightarrow>
   store (cancelSearch resp w) =
     (store w)\<lparr>pollingInterval := None, error := Some (message_of e ''Failed to cancel search'')\<rparr>
   \<and> intervals (cancelSearch resp w) = intervals (stopPolling w)"
  by (simp add: cancelSearch_def cancelSearch_settled_failure)
     (simp add: cancelSearch_call_current store_stopPolling)

lemma cancelSearch_try_Rejects: "cancelSearch_try (Rejects e) w = Inl e"
  and cancelSearch_try_Not_ok:
  "cancelSearch_try (Not_ok b) w = Inl (throw_detail_or b ''Failed to cancel search'')"
  by (simp_all add: cancelSearch_try_def)

lemma startSearch_Rejects:
  "store (startSearch cid (Rejects e) w) =
     (store w)\<lparr>pollingInterval := None, status := Error, progress := Fin 0, sources := [],
       leads := [], error := Some (message_of e ''Failed to start search''),
       currentSearch := None\<rparr>
   \<and> intervals (startSearch cid (Rejects e) w) = intervals (stopPolling w)
   \<and> next_handle (startSearch cid (Rejects e) w) = next_handle w"
  by (rule startSearch_failure) (rule startSearch_try_Rejects)

lemma startSearch_Not_ok:
  "store (startSearch cid (Not_ok b) w) =
     (store w)\<lparr>pollingInterval := None, status := Error, progress := Fin 0, sources := [],
       leads := [],
       error := Some (message_of (throw_detail_or b ''Failed to start search'')
                        ''Failed to start search''),
       currentSearch := None\<rparr>
   \<and> intervals (startSearch cid (Not_ok b) w) = intervals (stopPolling w)
   \<and> next_handle (startSearch cid (Not_ok b) w) = next_handle w"
  using startSearch_failure[OF startSearch_try_Not_ok] by simp

lemma cancelSearch_Rejects:
  "currentSearch (store w) = Some current \<Longrightarrow>
   store (cancelSearch (Rejects e) w) =
     (store w)\<lparr>pollingInterval := None, error := Some (message_of e ''Failed to cancel search'')\<rparr>
   \<and> intervals (cancelSearch (Rejects e) w) = intervals (stopPolling w)"
  by (rule cancelSearch_failure) (simp_all add: cancelSearch_try_Rejects)

lemma cancelSearch_Not_ok:
  "currentSearch (store w) = Some current \<Longrightarrow>
   store (cancelSearch (Not_ok b) w) =
     (store w)\<lparr>pollingInterval := None,
       error := Some (message_of (throw_detail_or b ''Failed to cancel search'')
                        ''Failed to cancel search'')\<rparr>
   \<and> intervals (cancelSearch (Not_ok b) w) = intervals (stopPolling w)"
  using cancelSearch_failure[OF _ cancelSearch_try_Not_ok] by simp

subsection \<open>A successful poll\<close>

text \<open>
  C2: a successful poll response replaces the mirror wholesale: \<open>currentSearch\<close>,
  \<open>status\<close>, \<open>progress\<close> and the whole \<open>sources\<close> and \<open>leads\<close> lists are those of the
  response (a list the response carries is stored as it is, an absent one counts as
  empty), whatever the store held before; the polling timer is cleared when the returned
  status is not \<open>searching\<close> and is left as it is when the status is \<open>searching\<close>. After
  any run of the store, a terminal response leaves no active timer.
\<close>

theorem pollSearchStatus_success_replaces_mirror:
  "let w' = pollSearchStatus searchId (Ok (Json search)) w;
       r' = pollSearchStatus searchId (Ok (Json search)) (run evs)
   in currentSearch (store w') = Some search
    \<and> status (store w') = r_status search
    \<and> progress (store w') = r_progress search
    \<and> sources (store w') = or_empty (r_sources search)
    \<and> leads (store w') = or_empty (r_leads search)
    \<and> (\<forall>ys. r_sources search = Some ys \<longrightarrow> sources (store w') = ys)
    \<and> (\<forall>xs. r_leads search = Some xs \<longrightarrow> leads (store w') = xs)
    \<and> (r_sources search = None \<longrightarrow> sources (store w') = [])
    \<and> (r_leads search = None \<longrightarrow> leads (store w') = [])
    \<and> error (store w') = r_error_message search
    \<and> pollingInterval (store w') =
        (if r_status search = Searching then pollingInterval (store w) else None)
    \<and> intervals w' =
        (if r_status search = Searching then intervals w
         else filter (\<lambda>p. Some (fst p) \<noteq> pollingInterval (store w)) (intervals w))
    \<and> intervals r' = (if r_status search = Searching then intervals (run evs) else [])"
proof -
  have "filter (\<lambda>p. Some (fst p) \<noteq> pollingInterval (store (run evs))) (intervals (run evs)) = []"
    using stopPolling_no_intervals[OF single_timer_run[of evs]]
    by (simp add: intervals_stopPolling)
  then show ?thesis
    by (simp add: pollSearchStatus_def pollSearchStatus_settled_def pollSearchStatus_try_def
        Let_def store_stopPolling intervals_stopPolling)
qed

theorem pollSearchStatus_success_replaces_mirror_witness:
  "leads (store searching_world) = three_leads
   \<and> leads (store (pollSearchStatus ''s1''
        (Ok (Json (example_run Completed (Fin 1) [example_lead ''l9'']))) searching_world))
     = [example_lead ''l9'']
   \<and> sources (store (pollSearchStatus ''s1''
        (Ok (Json (example_run Completed (Fin 1) [example_lead ''l9'']))) searching_world))
     = []
   \<and> status (store (pollSearchStatus ''s1''
        (Ok (Json (example_run Completed (Fin 1) [example_lead ''l9'']))) searching_world))
     = Completed
   \<and> pollingInterval (store (pollSearchStatus ''s1''
        (Ok (Json (example_run Completed (Fin 1) [example_lead ''l9'']))) searching_world))
     = None
   \<and> intervals (pollSearchStatus ''s1''
        (Ok (Json (example_run Completed (Fin 1) [example_lead ''l9'']))) searching_world)
     = []
   \<and> leads (store (pollSearchStatus ''s1''
        (Ok (Json (example_run Searching (Fin (3 / 4)) []))) searching_world))
     = []
   \<and> intervals (pollSearchStatus ''s1''
        (Ok (Json (example_run Searching (Fin (3 / 4)) []))) searching_world)
     = [(Timeout 1, ''s1'')]"
proof -
  let ?done = "example_run Completed (Fin 1) [example_lead ''l9'']"
  let ?more = "example_run Searching (Fin (3 / 4)) []"
  note d = pollSearchStatus_success_replaces_mirror[of "''s1''" ?done searching_world "[]",
      unfolded Let_def]
  note m = pollSearchStatus_success_replaces_mirror[of "''s1''" ?more searching_world "[]",
      unfolded Let_def]
  have ld: "r_leads ?done = Some [example_lead ''l9'']" and sd: "r_sources ?done = Some []"
    and st: "r_status ?done = Completed"
    and lm: "r_leads ?more = Some []" and sm: "r_status ?more = Searching"
    by (simp_all add: example_run_def)
  from d ld have "leads (store (pollSearchStatus ''s1'' (Ok (Json ?done)) searching_world))
      = [example_lead ''l9'']" by blast
  moreover from d sd have "sources (store (pollSearchStatus ''s1'' (Ok (Json ?done))
      searching_world)) = []" by blast
  moreover from d st have "status (store (pollSearchStatus ''s1'' (Ok (Json ?done))
      searching_world)) = Completed
    \<and> pollingInterval (store (pollSearchStatus ''s1'' (Ok (Json ?done)) searching_world)) = None
    \<and> intervals (pollSearchStatus ''s1'' (Ok (Json ?done)) searching_world) = []"
    by (simp add: searching_world_eq)
  moreover from m lm have "leads (store (pollSearchStatus ''s1'' (Ok (Json ?more))
      searching_world)) = []" by blast
  moreover from m sm have "intervals (pollSearchStatus ''s1'' (Ok (Json ?more))
      searching_world) = [(Timeout 1, ''s1'')]"
    by (simp add: searching_world_eq)
  ultimately show ?thesis by (simp add: searching_world_eq)
qed

subsection \<open>A failed poll\<close>

text \<open>
  C4: when a poll request fails (the fetch rejects or the response is not 2xx), no field
  of the store changes: status, current run, progress, sources, leads and the error
  string are as before; the timer is not stopped, and the next tick of an active timer
  issues a poll request again.
\<close>

theorem poll_failure_keeps_state_and_timer:
  assumes "resp = Rejects e \<or> resp = Not_ok b"
  shows "let w' = pollSearchStatus searchId resp w
   in store w' = store w
    \<and> status (store w') = status (store w)
    \<and> currentSearch (store w') = currentSearch (store w)
    \<and> progress (store w') = progress (store w)
    \<and> sources (store w') = sources (store w)
    \<and> leads (store w') = leads (store w)
    \<and> error (store w') = error (store w)
    \<and> pollingInterval (store w') = pollingInterval (store w)
    \<and> intervals w' = intervals w
    \<and> store (pollSearchStatus_settled searchId resp w) = store w
    \<and> intervals (pollSearchStatus_settled searchId resp w) = intervals w
    \<and> fetched (pollSearchStatus_settled searchId resp w) = fetched w
    \<and> (\<forall>h sid. map_of (intervals w) h = Some sid \<longrightarrow>
           fetched (interval_fires h w') = fetched w' @ [Get_search sid])"
proof -
  obtain m where m: "pollSearchStatus_settled searchId resp (pollSearchStatus_call searchId w) =
      logger Log_error (Search_poll_error searchId m) (pollSearchStatus_call searchId w)"
    using pollSearchStatus_settled_failure[OF assms] by blast
  obtain m' where m': "pollSearchStatus_settled searchId resp w =
      logger Log_error (Search_poll_error searchId m') w"
    using pollSearchStatus_settled_failure[OF assms] by blast
  show ?thesis
    by (simp add: pollSearchStatus_def m m' Let_def interval_fires_def)
qed

theorem poll_failure_keeps_state_and_timer_witness:
  "status (store (pollSearchStatus ''s1'' (Rejects (JsError ''Failed to fetch'')) searching_world))
     = Searching
   \<and> leads (store (pollSearchStatus ''s1'' (Rejects (JsError ''Failed to fetch'')) searching_world))
     = three_leads
   \<and> intervals (pollSearchStatus ''s1'' (Rejects (JsError ''Failed to fetch'')) searching_world)
     = [(Timeout 1, ''s1'')]
   \<and> fetched (interval_fires (Timeout 1)
        (pollSearchStatus ''s1'' (Rejects (JsError ''Failed to fetch'')) searching_world))
     = fetched (pollSearchStatus ''s1'' (Rejects (JsError ''Failed to fetch'')) searching_world)
       @ [Get_search ''s1'']"
proof -
  let ?resp = "Rejects (JsError ''Failed to fetch'') :: SearchResult response"
  have fails: "?resp = Rejects (JsError ''Failed to fetch'') \<or> ?resp = Not_ok Unreadable"
    by simp
  note kept = poll_failure_keeps_state_and_timer[OF fails, of "''s1''" searching_world,
      unfolded Let_def]
  have active: "map_of (intervals searching_world) (Timeout 1) = Some ''s1''"
    by (simp add: searching_world_eq)
  from kept active have tick:
    "fetched (interval_fires (Timeout 1) (pollSearchStatus ''s1'' ?resp searching_world))
       = fetched (pollSearchStatus ''s1'' ?resp searching_world) @ [Get_search ''s1'']"
    by blast
  from kept have "store (pollSearchStatus ''s1'' ?resp searching_world) = store searching_world"
    and "intervals (pollSearchStatus ''s1'' ?resp searching_world) = intervals searching_world"
    by blast+
  with tick show ?thesis by (simp add: searching_world_eq)
qed

subsection \<open>cancelSearch without a current run\<close>

text \<open>
  C7: \<open>cancelSearch()\<close> with \<open>currentSearch\<close> null sends no request, does not touch the
  polling timer and leaves every field of the store unchanged; it only logs a warning.
\<close>

theorem cancelSearch_without_current_run:
  assumes "currentSearch (store w) = None"
  shows "cancelSearch resp w = w\<lparr>logged := logged w @ [(Log_warn, Cancel_search_no_active)]\<rparr>
    \<and> cancelSearch_call w = w\<lparr>logged := logged w @ [(Log_warn, Cancel_search_no_active)]\<rparr>
    \<and> fetched (cancelSearch resp w) = fetched w
    \<and> intervals (cancelSearch resp w) = intervals w
    \<and> next_handle (cancelSearch resp w) = next_handle w
    \<and> store (cancelSearch resp w) = store w"
  using assms by (simp add: cancelSearch_def cancelSearch_call_def logger_def)

theorem cancelSearch_without_current_run_witness:
  "currentSearch (store initial_world) = None
   \<and> cancelSearch (Ok (Json (example_run Cancelled (Fin 0) []))) initial_world =
       initial_world\<lparr>logged := [(Log_warn, Cancel_search_no_active)]\<rparr>
   \<and> fetched (cancelSearch (Ok (Json (example_run Cancelled (Fin 0) []))) initial_world) = []
   \<and> intervals (cancelSearch (Ok (Json (example_run Cancelled (Fin 0) []))) initial_world) = []
   \<and> store (cancelSearch (Ok (Json (example_run Cancelled (Fin 0) []))) initial_world) =
       initialState"
proof -
  have none: "currentSearch (store initial_world) = None"
    by (simp add: initial_world_def initialState_def)
  from cancelSearch_without_current_run[OF none, of "Ok (Json (example_run Cancelled (Fin 0) []))"]
  show ?thesis using none by (simp add: initial_world_def)
qed

subsection \<open>A successful cancel\<close>

text \<open>
  C1: in a state with a current run, when \<open>cancelSearch()\<close> is called and the cancel
  request succeeds, the status is \<open>cancelled\<close> whatever status the response body
  carries, and progress, sources and leads are those of the response.
\<close>

theorem cancelSearch_success_forces_cancelled:
  assumes "currentSearch (store w) = Some current"
  shows "let w' = cancelSearch (Ok (Json search)) w
   in status (store w') = Cancelled
    \<and> progress (store w') = r_progress search
    \<and> sources (store w') = or_empty (r_sources search)
    \<and> leads (store w') = or_empty (r_leads search)
    \<and> currentSearch (store w') = Some search
    \<and> status (store (cancelSearch_settled (Ok (Json search)) w)) = Cancelled
    \<and> fetched w' = fetched w @ [Post_cancel (r_id current)]"
  using assms
  by (simp add: cancelSearch_def cancelSearch_call_current cancelSearch_settled_def
      cancelSearch_try_def Let_def)

theorem cancelSearch_success_forces_cancelled_witness:
  "currentSearch (store searching_world) = Some (example_run Searching (Fin (1 / 2)) three_leads)
   \<and> r_status (example_run Searching (Fin (1 / 2)) three_leads) = Searching
   \<and> status (store (cancelSearch (Ok (Json (example_run Searching (Fin (1 / 2)) three_leads)))
        searching_world)) = Cancelled
   \<and> leads (store (cancelSearch (Ok (Json (example_run Searching (Fin (1 / 2)) three_leads)))
        searching_world)) = three_leads
   \<and> progress (store (cancelSearch (Ok (Json (example_run Searching (Fin (1 / 2)) three_leads)))
        searching_world)) = Fin (1 / 2)"
proof -
  have cur: "currentSearch (store searching_world) =
      Some (example_run Searching (Fin (1 / 2)) three_leads)"
    by (simp add: searching_world_eq)
  from cancelSearch_success_forces_cancelled[OF cur,
      of "example_run Searching (Fin (1 / 2)) three_leads"]
  show ?thesis using cur by (simp add: Let_def example_run_def)
qed

subsection \<open>A failed cancel\<close>

text \<open>
  C8 as stated fails on the error string, which is not always the \<open>detail\<close> or the
  generic message: a cancel request that rejects with the \<open>Error\<close> of a network failure
  stores that error's own message.
\<close>

theorem cancelSearch_rejection_message_counterexample:
  "error (store (cancelSearch (Rejects (JsError ''Failed to fetch'')) searching_world))
     = Some ''Failed to fetch''
   \<and> error (store (cancelSearch (Rejects (JsError ''Failed to fetch'')) searching_world))
     \<noteq> Some ''Failed to cancel search''"
proof -
  have cur: "currentSearch (store searching_world) =
      Some (example_run Searching (Fin (1 / 2)) three_leads)"
    by (simp add: searching_world_eq)
  from cancelSearch_Rejects[OF cur, of "JsError ''Failed to fetch''"]
  show ?thesis by simp
qed

text \<open>
  C8 (amended): when the cancel request fails, only the error string is set, and status,
  current run, progress, sources and leads keep their values. The string is the
  rejection's own message when the request rejects with an \<open>Error\<close>. For a non-2xx
  response it is the \<open>detail\<close> of the body when that is a string and not empty; the
  string that \<open>new Error\<close> makes of a \<open>detail\<close> that is truthy but no string; and the
  message of the \<open>TypeError\<close> when the body is \<open>null\<close> or the \<open>detail\<close> cannot be
  converted. In every other case (no \<open>detail\<close>, a falsy one, an unreadable body, a
  rejection with something that is no \<open>Error\<close>) it is \<open>Failed to cancel search\<close>. The
  polling timer is cleared before the request is sent, so it is gone also after the
  failure.
\<close>

theorem cancelSearch_failure_records_error_only:
  assumes "currentSearch (store w) = Some current"
  shows "store (cancelSearch (Rejects (JsError m)) w) =
       (store w)\<lparr>pollingInterval := None, error := Some m\<rparr>
   \<and> store (cancelSearch (Rejects NotAnError) w) =
       (store w)\<lparr>pollingInterval := None, error := Some ''Failed to cancel search''\<rparr>
   \<and> store (cancelSearch (Not_ok (ErrorData (Some (String_value d)))) w) =
       (store w)\<lparr>pollingInterval := None,
         error := Some (if d = [] then ''Failed to cancel search'' else d)\<rparr>
   \<and> store (cancelSearch (Not_ok (ErrorData None)) w) =
       (store w)\<lparr>pollingInterval := None, error := Some ''Failed to cancel search''\<rparr>
   \<and> store (cancelSearch (Not_ok Unreadable) w) =
       (store w)\<lparr>pollingInterval := None, error := Some ''Failed to cancel search''\<rparr>
   \<and> store (cancelSearch (Not_ok (Null_body m)) w) =
       (store w)\<lparr>pollingInterval := None, error := Some m\<rparr>
   \<and> store (cancelSearch (Not_ok (ErrorData (Some (Other_value False r)))) w) =
       (store w)\<lparr>pollingInterval := None, error := Some ''Failed to cancel search''\<rparr>
   \<and> store (cancelSearch (Not_ok (ErrorData (Some (Other_value True (Inr text))))) w) =
       (store w)\<lparr>pollingInterval := None, error := Some text\<rparr>
   \<and> store (cancelSearch (Not_ok (ErrorData (Some (Other_value True (Inl (JsError m)))))) w) =
       (store w)\<lparr>pollingInterval := None, error := Some m\<rparr>
   \<and> store (cancelSearch (Not_ok (ErrorData (Some (Other_value True (Inl NotAnError))))) w) =
       (store w)\<lparr>pollingInterval := None, error := Some ''Failed to cancel search''\<rparr>
   \<and> status (store (cancelSearch (Not_ok b) w)) = status (store w)
   \<and> currentSearch (store (cancelSearch (Not_ok b) w)) = currentSearch (store w)
   \<and> progress (store (cancelSearch (Not_ok b) w)) = progress (store w)
   \<and> sources (store (cancelSearch (Not_ok b) w)) = sources (store w)
   \<and> leads (store (cancelSearch (Not_ok b) w)) = leads (store w)
   \<and> pollingInterval (store (cancelSearch_call w)) = None
   \<and> intervals (cancelSearch_call w) =
       filter (\<lambda>p. Some (fst p) \<noteq> pollingInterval (store w)) (intervals w)
   \<and> fetched (cancelSearch_call w) = fetched w @ [Post_cancel (r_id current)]
   \<and> (single_timer w \<longrightarrow> intervals (cancelSearch_call w) = []
        \<and> intervals (cancelSearch (Rejects e) w) = []
        \<and> intervals (cancelSearch (Not_ok b) w) = [])"
  by (simp add: cancelSearch_Rejects[OF assms] cancelSearch_Not_ok[OF assms]
      cancelSearch_call_current[OF assms] store_stopPolling stopPolling_no_intervals
      throw_detail_or_def)
     (simp add: intervals_stopPolling)

theorem cancelSearch_failure_records_error_only_witness:
  "currentSearch (store searching_world) = Some (example_run Searching (Fin (1 / 2)) three_leads)
   \<and> single_timer searching_world
   \<and> status (store (cancelSearch (Not_ok (ErrorData (Some (String_value ''run is locked'')))) searching_world))
       = Searching
   \<and> leads (store (cancelSearch (Not_ok (ErrorData (Some (String_value ''run is locked'')))) searching_world))
       = three_leads
   \<and> error (store (cancelSearch (Not_ok (ErrorData (Some (String_value ''run is locked'')))) searching_world))
       = Some ''run is locked''
   \<and> pollingInterval (store (cancelSearch (Not_ok (ErrorData (Some (String_value ''run is locked''))))
        searching_world)) = None
   \<and> intervals (cancelSearch (Not_ok (ErrorData (Some (String_value ''run is locked'')))) searching_world) = []"
proof -
  have cur: "currentSearch (store searching_world) =
      Some (example_run Searching (Fin (1 / 2)) three_leads)"
    by (simp add: searching_world_eq)
  have inv: "single_timer searching_world"
    by (simp add: searching_world_eq single_timer_def)
  from cancelSearch_failure_records_error_only[OF cur,
      where d = "''run is locked''"
        and b = "ErrorData (Some (String_value ''run is locked''))"] inv
  show ?thesis using cur by (simp add: searching_world_eq)
qed

subsection \<open>A failed start\<close>

text \<open>
  C5 as stated fails on the error string, which is not always the \<open>detail\<close> or the
  generic message: a creation request that rejects with the \<open>Error\<close> of a network
  failure stores that error's own message.
\<close>

theorem startSearch_rejection_message_counterexample:
  "error (store (startSearch ''p1'' (Rejects (JsError ''Failed to fetch'')) initial_world))
     = Some ''Failed to fetch''
   \<and> error (store (startSearch ''p1'' (Rejects (JsError ''Failed to fetch'')) initial_world))
     \<noteq> Some ''Failed to start search''"
  using startSearch_Rejects[of "''p1''" "JsError ''Failed to fetch''" initial_world]
  by simp

text \<open>
  C5 (amended): when the creation request of \<open>startSearch\<close> fails, the status is
  \<open>error\<close> and no polling is started: no timer is created, \<open>pollingInterval\<close> is null
  and, after any run of the store, no timer is active. The error string is the
  rejection's own message when the request rejects with an \<open>Error\<close>. For a non-2xx
  response it is the \<open>detail\<close> of the body when that is a string and not empty; the
  string that \<open>new Error\<close> makes of a \<open>detail\<close> that is truthy but no string
  (\<open>[object Object]\<close> for an array of objects); and the message of the \<open>TypeError\<close>
  when the body is \<open>null\<close> or the \<open>detail\<close> cannot be converted. In every other case
  (no \<open>detail\<close>, a falsy one, an unreadable body, a rejection with something that is no
  \<open>Error\<close>) it is \<open>Failed to start search\<close>.
\<close>

theorem startSearch_failure_sets_error:
  "error (store (startSearch cid (Rejects (JsError m)) w)) = Some m
   \<and> error (store (startSearch cid (Rejects NotAnError) w)) = Some ''Failed to start search''
   \<and> error (store (startSearch cid (Not_ok (ErrorData (Some (String_value d)))) w)) =
       Some (if d = [] then ''Failed to start search'' else d)
   \<and> error (store (startSearch cid (Not_ok (ErrorData None)) w)) = Some ''Failed to start search''
   \<and> error (store (startSearch cid (Not_ok Unreadable) w)) = Some ''Failed to start search''
   \<and> error (store (startSearch cid (Not_ok (Null_body m)) w)) = Some m
   \<and> error (store (startSearch cid (Not_ok (ErrorData (Some (Other_value False r)))) w)) =
       Some ''Failed to start search''
   \<and> error (store (startSearch cid (Not_ok (ErrorData (Some (Other_value True (Inr text))))) w))
       = Some text
   \<and> error (store (startSearch cid
        (Not_ok (ErrorData (Some (Other_value True (Inl (JsError m)))))) w)) = Some m
   \<and> error (store (startSearch cid
        (Not_ok (ErrorData (Some (Other_value True (Inl NotAnError))))) w)) =
       Some ''Failed to start search''
   \<and> error (store (startSearch cid
        (Not_ok (ErrorData (Some (Other_value True (Inr ''[object Object]''))))) w)) =
       Some ''[object Object]''
   \<and> status (store (startSearch cid (Rejects e) w)) = Error
   \<and> status (store (startSearch cid (Not_ok b) w)) = Error
   \<and> pollingInterval (store (startSearch cid (Rejects e) w)) = None
   \<and> pollingInterval (store (startSearch cid (Not_ok b) w)) = None
   \<and> next_handle (startSearch cid (Rejects e) w) = next_handle w
   \<and> next_handle (startSearch cid (Not_ok b) w) = next_handle w
   \<and> intervals (startSearch cid (Rejects e) (run evs)) = []
   \<and> intervals (startSearch cid (Not_ok b) (run evs)) = []"
  by (simp add: startSearch_Rejects startSearch_Not_ok throw_detail_or_def
      stopPolling_no_intervals[OF single_timer_run])

subsection \<open>startSearch is not atomic\<close>

text \<open>
  C9 as stated fails on the final state: the failure may come later, and the answer to
  a poll of the earlier run that settles in between is written to the store. The
  \<open>error\<close> state then has the leads and the current run of that answer.
\<close>

theorem startSearch_failure_after_late_poll_counterexample:
  "status (store (run stale_poll_events)) = Error
   \<and> error (store (run stale_poll_events)) = Some ''quota exceeded''
   \<and> leads (store (run stale_poll_events)) \<noteq> []
   \<and> currentSearch (store (run stale_poll_events)) \<noteq> None"
  by (simp add: stale_poll_events_def run_def initial_world_def initialState_def
      startSearch_call_def startSearch_prologue_def stopPolling_def startSearch_settled_def
      startSearch_try_def startPolling_def setInterval_def clearInterval_def
      interval_fires_def cancelSearch_call_def cancelSearch_settled_def cancelSearch_try_def
      pollSearchStatus_call_def pollSearchStatus_settled_def pollSearchStatus_try_def
      throw_detail_or_def set_state_def logger_def fetchWithAuth_def example_run_def
      three_leads_def Let_def)

text \<open>
  C9 (amended): \<open>startSearch\<close> sets status \<open>searching\<close> and progress 0 and clears
  sources, leads, error and the current run before it sends the creation request, so
  what the previous run had found is gone from then on. When the request fails, the
  failure sets only the status, to \<open>error\<close>, and the error string: leads, sources and
  current run are what the store holds at that moment. They are empty and null when
  nothing has written to the store since the call.
\<close>

theorem startSearch_clears_before_request:
  "let w1 = startSearch_prologue cid w;
       w2 = startSearch_call cid w;
       wr = startSearch cid (Rejects e) w;
       wn = startSearch cid (Not_ok b) w;
       sr = startSearch_settled (Rejects e) w;
       sn = startSearch_settled (Not_ok b) w
   in status (store w1) = Searching \<and> progress (store w1) = Fin 0
    \<and> sources (store w1) = [] \<and> leads (store w1) = []
    \<and> error (store w1) = None \<and> currentSearch (store w1) = None
    \<and> fetched w1 = fetched w
    \<and> fetched w2 =
        fetched w @ [Post_searches cid (qualityLevel (store w)) (manualOverride (store w))]
    \<and> store w2 = store w1
    \<and> status (store wr) = Error \<and> leads (store wr) = [] \<and> sources (store wr) = []
    \<and> currentSearch (store wr) = None
    \<and> status (store wn) = Error \<and> leads (store wn) = [] \<and> sources (store wn) = []
    \<and> currentSearch (store wn) = None
    \<and> store sr = (store w)\<lparr>status := Error, error := error (store sr)\<rparr>
    \<and> store sn = (store w)\<lparr>status := Error, error := error (store sn)\<rparr>
    \<and> status (store sr) = Error \<and> leads (store sr) = leads (store w)
    \<and> sources (store sr) = sources (store w)
    \<and> currentSearch (store sr) = currentSearch (store w)
    \<and> status (store sn) = Error \<and> leads (store sn) = leads (store w)
    \<and> sources (store sn) = sources (store w)
    \<and> currentSearch (store sn) = currentSearch (store w)"
  by (simp add: Let_def startSearch_Rejects startSearch_Not_ok store_startSearch_prologue
      env_startSearch_prologue store_startSearch_call
      startSearch_settled_failure[OF startSearch_try_Rejects]
      startSearch_settled_failure[OF startSearch_try_Not_ok])
     (simp add: startSearch_call_def env_startSearch_prologue)

lemma startSearch_failure_discards_previous_run:
  "leads (store searching_world) = three_leads
   \<and> leads (store (startSearch ''p2'' (Not_ok (ErrorData (Some (String_value ''quota exceeded''))))
        searching_world)) = []
   \<and> status (store (startSearch ''p2'' (Not_ok (ErrorData (Some (String_value ''quota exceeded''))))
        searching_world)) = Error
   \<and> error (store (startSearch ''p2'' (Not_ok (ErrorData (Some (String_value ''quota exceeded''))))
        searching_world)) = Some ''quota exceeded''"
  by (simp add: startSearch_Not_ok searching_world_eq throw_detail_or_def)

subsection \<open>The scenarios of the specification, evaluated\<close>

text \<open>
  The happy path: the next tick polls, the answer is \<open>completed\<close> with five leads, and
  polling stops, so a later tick of the cleared timer sends nothing. The cancellation
  whose answer still says \<open>searching\<close>. And what the clamp stores for the numbers that
  are not real.
\<close>

lemma happy_path_completes:
  "let w = pollSearchStatus ''s1''
             (Ok (Json (example_run Completed (Fin 1)
                (three_leads @ [example_lead ''l4'', example_lead ''l5'']))))
             (interval_fires (Timeout 1) searching_world)
   in status (store w) = Completed \<and> progress (store w) = Fin 1
    \<and> length (leads (store w)) = 5
    \<and> pollingInterval (store w) = None \<and> intervals w = []
    \<and> fetched (interval_fires (Timeout 1) w) = fetched w"
  by (simp add: searching_world_eq pollSearchStatus_def pollSearchStatus_call_def
      pollSearchStatus_settled_def pollSearchStatus_try_def interval_fires_def stopPolling_def
      set_state_def logger_def fetchWithAuth_def clearInterval_def example_run_def
      three_leads_def Let_def)

lemma cancel_scenario:
  "let w = cancelSearch (Ok (Json (example_run Searching (Fin (1 / 2)) three_leads)))
             searching_world
   in status (store w) = Cancelled \<and> leads (store w) = three_leads
    \<and> pollingInterval (store w) = None \<and> intervals w = []
    \<and> fetched w = fetched searching_world @ [Post_cancel ''s1'']"
  by (simp add: searching_world_eq cancelSearch_def cancelSearch_call_def
      cancelSearch_settled_def cancelSearch_try_def stopPolling_def
      set_state_def logger_def fetchWithAuth_def clearInterval_def example_run_def Let_def)

lemma quality_level_of_other_numbers:
  "qualityLevel (store (setQualityLevel NaN w)) = NaN
   \<and> qualityLevel (store (setQualityLevel Infinity w)) = Fin 1
   \<and> qualityLevel (store (setQualityLevel NegInfinity w)) = Fin 0"
  by (simp add: setQualityLevel_def)

end
